theory Spec2Isabelle
  imports Main "HOL-Library.Sublist"
begin

section \<open>JavaScript string primitives used by the pages\<close>

text \<open>
  Strings are byte lists, and the transcripts covered here are ASCII text: on them
  \<open>toLowerCase\<close> maps the capitals A to Z to their lower-case letters and leaves every
  other byte alone. JavaScript also lowers capitals outside ASCII (the Kelvin sign
  becomes \<open>k\<close>); such transcripts are outside what this function represents.
\<close>

definition lower_char :: "char \<Rightarrow> char" where
  "lower_char c =
     (case map_of (zip ''ABCDEFGHIJKLMNOPQRSTUVWXYZ'' ''abcdefghijklmnopqrstuvwxyz'') c of
        Some d \<Rightarrow> d
      | None \<Rightarrow> c)"

definition toLowerCase :: "string \<Rightarrow> string" where
  "toLowerCase s = map lower_char s"

text \<open>\<open>s.includes(sub)\<close>: \<open>sub\<close> occurs in \<open>s\<close> as a contiguous run.\<close>

fun includes_str :: "string \<Rightarrow> string \<Rightarrow> bool" where
  "includes_str [] sub = (sub = [])"
| "includes_str (c # cs) sub = (prefix sub (c # cs) \<or> includes_str cs sub)"

text \<open>
  \<open>s.split(",")\<close>: the pieces between commas; a string without a comma is one piece,
  and the empty string splits into one empty piece.
\<close>

fun split_comma :: "string \<Rightarrow> string list" where
  "split_comma [] = [[]]"
| "split_comma (c # cs) =
     (if c = CHR '','' then [] # split_comma cs
      else (case split_comma cs of
              [] \<Rightarrow> [[c]]
            | w # ws \<Rightarrow> (c # w) # ws))"

text \<open>
  \<open>imageBase64.split(",")[1]\<close>: the second piece, \<open>undefined\<close> (here \<open>None\<close>) when
  there is no comma.
\<close>

definition second_piece :: "string \<Rightarrow> string option" where
  "second_piece s = (case split_comma s of _ # b # _ \<Rightarrow> Some b | _ \<Rightarrow> None)"

text \<open>Truthiness of an optional string: \<open>undefined\<close> and \<open>""\<close> are falsy.\<close>

fun truthy :: "string option \<Rightarrow> bool" where
  "truthy None = False"
| "truthy (Some s) = (s \<noteq> [])"

text \<open>Decimal rendering of a number inside a template literal.\<close>

fun string_of_nat :: "nat \<Rightarrow> string" where
  "string_of_nat n =
     (if n < 10 then [''0123456789'' ! n]
      else string_of_nat (n div 10) @ [''0123456789'' ! (n mod 10)])"

declare string_of_nat.simps [simp del]

section \<open>Effects and page state of the scan page\<close>

datatype role = User | Assistant

record message =
  role :: role
  content :: string

text \<open>
  Everything a page does to the outside world is logged, in order: speech, toasts,
  navigation, camera and canvas calls, requests and timers.
\<close>

datatype effect =
    Speak string
  | StopSpeaking
  | StartListening
  | StopListening
  | ResetTranscript
  | RouterPush string
  | Toast string string bool
  | Vibrate nat
  | ConsoleError string
  | GetUserMedia
  | StopTrack
  | DrawImage
  | ToDataURL
  | FetchAnalyze string string
  | FetchChat "message list"
  | SetTimeout nat

text \<open>
  The component state of \<open>ScanPage\<close> (its \<open>useState\<close> cells), the two refs, the
  stream attached to the video element (\<open>Some n\<close>: a stream of \<open>n\<close> tracks), the
  retry timers that are scheduled and have not fired, and the log of effects.
\<close>

record scan_state =
  isListening :: bool
  isProcessing :: bool
  cameraActive :: bool
  analysisResult :: string
  userQuestion :: string
  retryCount :: nat
  videoRef :: bool
  canvasRef :: bool
  srcObject :: "nat option"
  timers :: nat
  effects :: "effect list"

text \<open>
  A render binds the state cells and the hook values to constants; every function the
  component defines in that render (\<open>captureImage\<close>, \<open>processImage\<close>,
  \<open>toggleListening\<close>, the command effect) closes over these constants. A setter
  changes the state for the next render, never the constants of a closure that exists.
\<close>

record scan_render =
  r_isListening :: bool
  r_cameraActive :: bool
  r_retryCount :: nat
  r_voiceFeedback :: bool
  r_isSpeaking :: bool
  r_transcript :: string

definition render :: "bool \<Rightarrow> bool \<Rightarrow> string \<Rightarrow> scan_state \<Rightarrow> scan_render" where
  "render voiceFeedback isSpeaking transcript st =
     \<lparr> r_isListening = isListening st,
       r_cameraActive = cameraActive st,
       r_retryCount = retryCount st,
       r_voiceFeedback = voiceFeedback,
       r_isSpeaking = isSpeaking,
       r_transcript = transcript \<rparr>"

definition emit :: "effect \<Rightarrow> scan_state \<Rightarrow> scan_state" where
  "emit e st = st\<lparr>effects := effects st @ [e]\<rparr>"

definition maxRetries :: nat where
  "maxRetries = 3"

section \<open>The offline fallback\<close>

definition MOCK_RESPONSES :: "string list" where
  "MOCK_RESPONSES =
     [''I can see what appears to be an indoor space. There are no obvious obstacles in the immediate vicinity.'',
      ''This looks like an outdoor area. The path ahead seems clear, but proceed with caution.'',
      ''I can see what might be furniture or objects in the frame. Please be careful when moving forward.'',
      ''The image shows what appears to be a room with some furniture. There are no immediate hazards visible.'',
      ''I can see what looks like a pathway. It appears to be clear of obstacles.'']"

text \<open>
  \<open>getMockResponse\<close>. Its first argument is the value of
  \<open>Math.floor(Math.random() * MOCK_RESPONSES.length)\<close>, a number from 0 to 4.
\<close>

definition getMockResponse :: "nat \<Rightarrow> string option \<Rightarrow> string" where
  "getMockResponse randomIndex question =
     (let response = MOCK_RESPONSES ! randomIndex in
      if truthy question
      then response @ '' Regarding your question: '' @ [CHR 0x22] @ the question @ [CHR 0x22]
             @ '', I'm currently unable to provide a specific answer as I'm operating in offline mode.''
      else response)"

section \<open>Camera control\<close>

text \<open>
  What the browser and the network answer, given from outside: whether
  \<open>navigator.mediaDevices\<close> exists, the result of \<open>getUserMedia\<close> (\<open>Some n\<close>: a
  stream of \<open>n\<close> tracks, \<open>None\<close>: rejected), whether \<open>navigator.vibrate\<close> exists,
  whether the canvas yields a 2d context, the data URL that \<open>canvas.toDataURL\<close>
  produces for the frame, and the random index drawn by \<open>getMockResponse\<close>.
\<close>

record scan_world =
  mediaDevices :: bool
  userMedia :: "nat option"
  canVibrate :: bool
  context2d :: bool
  frameDataURL :: string
  randomIndex :: nat

abbreviation DQ :: string where
  "DQ \<equiv> [CHR 0x22]"

text \<open>The \<open>catch\<close> block of \<open>startCamera\<close>.\<close>

definition startCamera_catch :: "scan_state \<Rightarrow> scan_state" where
  "startCamera_catch st =
     emit (Speak ''Could not access camera. Please check permissions.'')
       (emit (Toast ''Camera Error'' ''Could not access camera. Please check permissions.'' True)
         (emit (ConsoleError ''Error accessing camera:'') st))"

text \<open>
  \<open>startCamera\<close>. Without \<open>navigator.mediaDevices\<close> the call of \<open>getUserMedia\<close>
  throws before any request for the camera is made.
\<close>

definition startCamera :: "scan_world \<Rightarrow> scan_state \<Rightarrow> scan_state" where
  "startCamera w st =
     (if \<not> videoRef st then st
      else if \<not> mediaDevices w then startCamera_catch st
      else
        let st1 = emit GetUserMedia st in
        case userMedia w of
          Some stream \<Rightarrow>
            let st2 = st1\<lparr>srcObject := Some stream, cameraActive := True\<rparr>;
                st3 = emit (Toast ''Camera activated''
                              ''Say 'take picture' or click the camera button to analyze'' False) st2
            in if canVibrate w then emit (Vibrate 200) st3 else st3
        | None \<Rightarrow> startCamera_catch st1)"

definition stopCamera :: "scan_state \<Rightarrow> scan_state" where
  "stopCamera st =
     (if \<not> videoRef st \<or> srcObject st = None then st
      else
        let tracks = the (srcObject st);
            st1 = st\<lparr>effects := effects st @ replicate tracks StopTrack\<rparr>;
            st2 = st1\<lparr>srcObject := None, cameraActive := False\<rparr>
        in emit (Toast ''Camera stopped'' ''Camera has been turned off'' False) st2)"

section \<open>The image-analysis request\<close>

text \<open>
  The answer to one POST to \<open>/api/analyze-image\<close>: a success response with its
  \<open>analysis\<close>, a non-success response with its optional \<open>error\<close> and \<open>message\<close>
  fields, or a rejection (\<open>fetch\<close> or \<open>response.json()\<close> throws) with its message.
\<close>

datatype analyze_outcome =
    Analyze_ok string
  | Analyze_not_ok "string option" "string option"
  | Analyze_throws string

definition default_prompt :: string where
  "default_prompt =
     ''Describe this scene in detail for a visually impaired person. Focus on any obstacles, people, or important elements.''"

text \<open>\<open>data.error || data.message || "Failed to analyze image"\<close>\<close>

definition failure_message :: "string option \<Rightarrow> string option \<Rightarrow> string" where
  "failure_message err msg =
     (if truthy err then the err
      else if truthy msg then the msg
      else ''Failed to analyze image'')"

text \<open>
  The \<open>try\<close> block of \<open>processImage\<close>, in the two parts the run executes it: up to
  the point where it waits for the network (\<open>await fetch\<close>), and from the answer on
  (\<open>await response.json()\<close> changes nothing in between). Each part gives the state it
  leaves, and the message of the error it throws, if it throws.
\<close>

definition processImage_request ::
  "string \<Rightarrow> string option \<Rightarrow> scan_state \<Rightarrow> scan_state \<times> string option" where
  "processImage_request imageBase64 question st =
     (let base64Data = second_piece imageBase64 in
      if \<not> truthy base64Data then (st, Some ''Invalid image data'')
      else
        (emit (FetchAnalyze (the base64Data)
                 (if truthy question then the question else default_prompt)) st, None))"

definition processImage_response ::
  "scan_render \<Rightarrow> analyze_outcome \<Rightarrow> scan_state \<Rightarrow> scan_state \<times> string option" where
  "processImage_response env outcome st =
     (case outcome of
        Analyze_throws m \<Rightarrow> (st, Some m)
      | Analyze_not_ok err msg \<Rightarrow> (st, Some (failure_message err msg))
      | Analyze_ok analysis \<Rightarrow>
          let st2 = st\<lparr>analysisResult := analysis\<rparr>;
              st3 = (if r_voiceFeedback env then emit (Speak analysis) st2 else st2)
          in (emit (Toast ''Analysis complete'' ''Image has been analyzed'' False) st3, None))"

text \<open>\<open>setTimeout(callback, ms)\<close>: one more timer is pending.\<close>

definition schedule :: "nat \<Rightarrow> scan_state \<Rightarrow> scan_state" where
  "schedule ms st = (emit (SetTimeout ms) st)\<lparr>timers := timers st + 1\<rparr>"

text \<open>
  The \<open>catch\<close> block. \<open>retryCount\<close> is the constant of the render that built this
  \<open>processImage\<close>, so the test and \<open>nextRetryCount\<close> read \<open>r_retryCount env\<close>.
\<close>

definition processImage_catch ::
  "scan_render \<Rightarrow> nat \<Rightarrow> string option \<Rightarrow> string \<Rightarrow> scan_state \<Rightarrow> scan_state" where
  "processImage_catch env rnd question errorMessage st =
     (let st1 = emit (ConsoleError errorMessage) st in
      if r_retryCount env < maxRetries then
        let nextRetryCount = r_retryCount env + 1;
            st2 = st1\<lparr>retryCount := nextRetryCount\<rparr>;
            st3 = emit (Toast (''Retry '' @ string_of_nat nextRetryCount @ ''/'' @ string_of_nat maxRetries)
                          ''Retrying image analysis...'' False) st2
        in schedule 1000 st3
      else
        let mockResponse = getMockResponse rnd question;
            st2 = emit (Toast ''Using offline mode''
                          ''Could not connect to AI service. Using basic analysis.'' False) st1;
            st3 = st2\<lparr>analysisResult := mockResponse\<rparr>
        in if r_voiceFeedback env then emit (Speak mockResponse) st3 else st3)"

definition processImage_finally :: "scan_render \<Rightarrow> scan_state \<Rightarrow> scan_state" where
  "processImage_finally env st =
     (if r_retryCount env \<ge> maxRetries
      then st\<lparr>isProcessing := False, userQuestion := [], retryCount := 0\<rparr>
      else st)"

text \<open>
  A run of \<open>processImage(imageBase64, question)\<close> up to the point where it waits for
  the network. The flag tells whether a request is in flight; when the payload is
  refused, the \<open>catch\<close> and \<open>finally\<close> blocks run at once and the run is over. Until
  the answer arrives the page is free to handle other events.
\<close>

definition processImage_start ::
  "scan_render \<Rightarrow> nat \<Rightarrow> string \<Rightarrow> string option \<Rightarrow> scan_state \<Rightarrow> scan_state \<times> bool" where
  "processImage_start env rnd imageBase64 question st =
     (let st0 = st\<lparr>isProcessing := True\<rparr> in
      case processImage_request imageBase64 question st0 of
        (st1, None) \<Rightarrow> (st1, True)
      | (st1, Some errorMessage) \<Rightarrow>
          (processImage_finally env (processImage_catch env rnd question errorMessage st1), False))"

text \<open>
  The rest of the run, when the answer arrives: the request settles. \<open>st\<close> is the
  state of the page at that moment.
\<close>

definition processImage_settle ::
  "scan_render \<Rightarrow> nat \<Rightarrow> string option \<Rightarrow> analyze_outcome \<Rightarrow> scan_state \<Rightarrow> scan_state" where
  "processImage_settle env rnd question outcome st =
     (case processImage_response env outcome st of
        (st1, None) \<Rightarrow> processImage_finally env st1
      | (st1, Some errorMessage) \<Rightarrow>
          processImage_finally env (processImage_catch env rnd question errorMessage st1))"

text \<open>
  One run of \<open>processImage(imageBase64, question)\<close> with nothing else happening while
  its request is in flight, given the answer to the request (if it sends one) and the
  random index for the fallback.
\<close>

definition processImage ::
  "scan_render \<Rightarrow> nat \<Rightarrow> string \<Rightarrow> string option \<Rightarrow> analyze_outcome \<Rightarrow> scan_state
     \<Rightarrow> scan_state" where
  "processImage env rnd imageBase64 question outcome st =
     (case processImage_start env rnd imageBase64 question st of
        (st1, True) \<Rightarrow> processImage_settle env rnd question outcome st1
      | (st1, False) \<Rightarrow> st1)"

text \<open>
  The event loop after a run: while a retry timer is pending and the network has a
  next answer, the timer fires and its callback calls \<open>processImage(imageBase64,
  question)\<close> again. The callback was created inside the run that scheduled it, so the
  \<open>processImage\<close> it calls is the one of the same render: same \<open>env\<close>.
\<close>

fun run_retries ::
  "scan_render \<Rightarrow> nat \<Rightarrow> string \<Rightarrow> string option \<Rightarrow> analyze_outcome list \<Rightarrow> scan_state
     \<Rightarrow> scan_state" where
  "run_retries env rnd imageBase64 question [] st = st"
| "run_retries env rnd imageBase64 question (outcome # rest) st =
     (if timers st = 0 then st
      else run_retries env rnd imageBase64 question rest
             (processImage env rnd imageBase64 question outcome (st\<lparr>timers := timers st - 1\<rparr>)))"

text \<open>
  \<open>captureImage(question)\<close> up to the point where its \<open>processImage\<close> waits for the
  network (or is over). The canvas size assignments (70 percent of the video size, a
  floating-point product) are not part of the log; drawing and encoding are.
\<close>

definition captureImage_start ::
  "scan_render \<Rightarrow> scan_world \<Rightarrow> string option \<Rightarrow> scan_state \<Rightarrow> scan_state \<times> bool" where
  "captureImage_start env w question st =
     (if \<not> videoRef st \<or> \<not> canvasRef st \<or> \<not> r_cameraActive env then
        (emit (Toast ''Camera not active'' ''Please start the camera first'' True)
           (emit (Speak ''Camera is not active. Please start the camera first.'') st), False)
      else if \<not> context2d w then (st, False)
      else
        let st1 = emit DrawImage st;
            st2 = emit ToDataURL st1;
            compressedImage = frameDataURL w;
            questionText = (if truthy question then question else None);
            st3 = st2\<lparr>retryCount := 0\<rparr>
        in processImage_start env (randomIndex w) compressedImage questionText st3)"

text \<open>
  \<open>captureImage(question)\<close> with nothing else happening while the request of its
  \<open>processImage\<close> is in flight.
\<close>

definition captureImage ::
  "scan_render \<Rightarrow> scan_world \<Rightarrow> string option \<Rightarrow> analyze_outcome \<Rightarrow> scan_state \<Rightarrow> scan_state" where
  "captureImage env w question outcome st =
     (case captureImage_start env w question st of
        (st1, True) \<Rightarrow>
          processImage_settle env (randomIndex w) (if truthy question then question else None)
            outcome st1
      | (st1, False) \<Rightarrow> st1)"

section \<open>Voice commands and the microphone toggle of the scan page\<close>

text \<open>
  The body of the effect that runs when the transcript changes. \<open>outcome\<close> answers the
  request of the capture it may start.
\<close>

definition commandEffect ::
  "scan_render \<Rightarrow> scan_world \<Rightarrow> analyze_outcome \<Rightarrow> scan_state \<Rightarrow> scan_state" where
  "commandEffect env w outcome st =
     (let transcript = r_transcript env in
      if transcript = [] \<or> \<not> r_isListening env then st
      else
        let command = toLowerCase transcript in
        if includes_str command ''go back'' \<or> includes_str command ''go home'' then
          emit (RouterPush ''/'') (emit (Speak ''Going back to home page'') st)
        else if includes_str command ''go to gpt'' \<or> includes_str command ''go to assistant'' then
          emit (RouterPush ''/gpt'') (emit (Speak ''Opening voice assistant'') st)
        else if includes_str command ''start camera'' \<or> includes_str command ''open camera'' then
          startCamera w (emit (Speak ''Starting camera'') st)
        else if includes_str command ''stop camera'' \<or> includes_str command ''close camera'' then
          stopCamera (emit (Speak ''Stopping camera'') st)
        else if includes_str command ''take picture'' \<or> includes_str command ''snap photo''
                \<or> includes_str command ''analyze'' then
          captureImage env w None outcome (emit (Speak ''Taking picture for analysis'') st)
        else if includes_str command ''emergency'' then
          emit (Toast ''Emergency Contact'' ''Contacting your emergency contact...'' True)
            (emit (Speak ''Activating emergency contact'') st)
        else if r_cameraActive env then
          captureImage env w (Some transcript) outcome (st\<lparr>userQuestion := transcript\<rparr>)
        else
          emit ResetTranscript
            (emit (Speak (''You can say '' @ DQ @ ''take picture'' @ DQ @ '', '' @ DQ @ ''start camera''
                          @ DQ @ '', '' @ DQ @ ''stop camera'' @ DQ @ '', or '' @ DQ @ ''go home'' @ DQ)) st))"

definition toggleListening :: "scan_render \<Rightarrow> scan_world \<Rightarrow> scan_state \<Rightarrow> scan_state" where
  "toggleListening env w st =
     (if r_isSpeaking env then emit StopSpeaking st
      else if r_isListening env then
        emit (Toast ''Voice recognition stopped'' ''Click the microphone again to start listening'' False)
          ((emit StopListening st)\<lparr>isListening := False\<rparr>)
      else
        let st1 = (emit StartListening st)\<lparr>isListening := True\<rparr>;
            st2 = emit (Speak (if r_cameraActive env
                               then ''Listening. Ask a question about what you see or say '' @ DQ
                                      @ ''take picture'' @ DQ
                               else ''Listening. You can say '' @ DQ @ ''start camera'' @ DQ @ '', '' @ DQ
                                      @ ''take picture'' @ DQ @ '', or '' @ DQ @ ''go home'' @ DQ)) st1;
            st3 = emit (Toast ''Listening...'' ''Say a command or ask a question'' False) st2
        in if canVibrate w then emit (Vibrate 200) st3 else st3)"

text \<open>The page as mounted, before any interaction, and with the camera running.\<close>

definition initial_scan :: scan_state where
  "initial_scan =
     \<lparr> isListening = False, isProcessing = False, cameraActive = False,
       analysisResult = [], userQuestion = [], retryCount = 0,
       videoRef = True, canvasRef = True, srcObject = None,
       timers = 0, effects = [] \<rparr>"

definition camera_on :: scan_state where
  "camera_on = initial_scan\<lparr>cameraActive := True, srcObject := Some 1\<rparr>"

section \<open>The chat page\<close>

text \<open>
  The state of \<open>GPTPage\<close>: its \<open>useState\<close> cells, the pending retry timers and the
  log of effects; and the constants one render of it binds.
\<close>

record gpt_state =
  gpt_isListening :: bool
  gpt_isProcessing :: bool
  messages :: "message list"
  gpt_retryCount :: nat
  gpt_timers :: nat
  gpt_effects :: "effect list"

record gpt_render =
  g_isListening :: bool
  g_messages :: "message list"
  g_retryCount :: nat
  g_voiceFeedback :: bool
  g_isSpeaking :: bool
  g_transcript :: string

definition gpt_render_of :: "bool \<Rightarrow> bool \<Rightarrow> string \<Rightarrow> gpt_state \<Rightarrow> gpt_render" where
  "gpt_render_of voiceFeedback isSpeaking transcript st =
     \<lparr> g_isListening = gpt_isListening st,
       g_messages = messages st,
       g_retryCount = gpt_retryCount st,
       g_voiceFeedback = voiceFeedback,
       g_isSpeaking = isSpeaking,
       g_transcript = transcript \<rparr>"

definition gpt_emit :: "effect \<Rightarrow> gpt_state \<Rightarrow> gpt_state" where
  "gpt_emit e st = st\<lparr>gpt_effects := gpt_effects st @ [e]\<rparr>"

definition gpt_schedule :: "nat \<Rightarrow> gpt_state \<Rightarrow> gpt_state" where
  "gpt_schedule ms st = (gpt_emit (SetTimeout ms) st)\<lparr>gpt_timers := gpt_timers st + 1\<rparr>"

text \<open>
  The answer to one POST to \<open>/api/chat\<close>: a success response with its \<open>response\<close>
  text, a non-success response, or a rejection with its message.
\<close>

datatype chat_outcome =
    Chat_ok string
  | Chat_not_ok
  | Chat_throws string

definition apology :: message where
  "apology =
     \<lparr> role = Assistant,
       content = ''I'm sorry, I encountered an error processing your request. Please try again.'' \<rparr>"

text \<open>
  The part of the \<open>try\<close> block of \<open>handleUserMessage\<close> that runs when the answer
  arrives (the request itself is sent by the part before, see
  \<open>handleUserMessage_start\<close>).
\<close>

definition handleUserMessage_response ::
  "gpt_render \<Rightarrow> chat_outcome \<Rightarrow> gpt_state \<Rightarrow> gpt_state \<times> string option" where
  "handleUserMessage_response env outcome st =
     (case outcome of
        Chat_throws m \<Rightarrow> (st, Some m)
      | Chat_not_ok \<Rightarrow> (st, Some ''Failed to get response from API'')
      | Chat_ok aiResponse \<Rightarrow>
          let st2 = st\<lparr>messages := messages st @ [\<lparr>role = Assistant, content = aiResponse\<rparr>]\<rparr>;
              st3 = (if g_voiceFeedback env then gpt_emit (Speak aiResponse) st2 else st2)
          in (gpt_emit (Toast ''Response received'' ''The AI has responded to your question'' False) st3,
              None))"

definition handleUserMessage_catch :: "gpt_render \<Rightarrow> string \<Rightarrow> gpt_state \<Rightarrow> gpt_state" where
  "handleUserMessage_catch env errorMessage st =
     (let st1 = gpt_emit (ConsoleError errorMessage) st in
      if g_retryCount env < maxRetries then
        let nextRetryCount = g_retryCount env + 1;
            st2 = st1\<lparr>gpt_retryCount := nextRetryCount\<rparr>;
            st3 = gpt_emit (Toast (''Retry '' @ string_of_nat nextRetryCount @ ''/'' @ string_of_nat maxRetries)
                              ''Retrying to get a response...'' False) st2
        in gpt_schedule 1000 st3
      else
        let st2 = gpt_emit (Toast ''Error'' ''Failed to get a response. Please try again.'' True) st1
        in st2\<lparr>messages := messages st2 @ [apology]\<rparr>)"

definition handleUserMessage_finally :: "gpt_render \<Rightarrow> gpt_state \<Rightarrow> gpt_state" where
  "handleUserMessage_finally env st =
     (if g_retryCount env \<ge> maxRetries
      then st\<lparr>gpt_isProcessing := False, gpt_retryCount := 0\<rparr>
      else st)"

text \<open>
  A run of \<open>handleUserMessage(message)\<close> up to the point where it waits for the
  network (\<open>await fetch\<close>). The request body is built from \<open>messages\<close>, the constant
  of the render, not from the live log.
\<close>

definition handleUserMessage_start :: "gpt_render \<Rightarrow> string \<Rightarrow> gpt_state \<Rightarrow> gpt_state" where
  "handleUserMessage_start env message st =
     (let st1 = st\<lparr>messages := messages st @ [\<lparr>role = User, content = message\<rparr>]\<rparr>;
          st2 = (gpt_emit StopListening st1)
                  \<lparr>gpt_isListening := False, gpt_isProcessing := True, gpt_retryCount := 0\<rparr>
      in gpt_emit (FetchChat (g_messages env @ [\<lparr>role = User, content = message\<rparr>])) st2)"

text \<open>
  The rest of the run, when the answer arrives: the request settles. \<open>st\<close> is the
  state of the page at that moment.
\<close>

definition handleUserMessage_settle :: "gpt_render \<Rightarrow> chat_outcome \<Rightarrow> gpt_state \<Rightarrow> gpt_state" where
  "handleUserMessage_settle env outcome st =
     (case handleUserMessage_response env outcome st of
        (st1, None) \<Rightarrow> handleUserMessage_finally env st1
      | (st1, Some errorMessage) \<Rightarrow>
          handleUserMessage_finally env (handleUserMessage_catch env errorMessage st1))"

text \<open>
  One run of \<open>handleUserMessage(message)\<close> with nothing else happening while its
  request is in flight, given the answer to the request.
\<close>

definition handleUserMessage :: "gpt_render \<Rightarrow> string \<Rightarrow> chat_outcome \<Rightarrow> gpt_state \<Rightarrow> gpt_state" where
  "handleUserMessage env message outcome st =
     handleUserMessage_settle env outcome (handleUserMessage_start env message st)"

text \<open>
  The event loop after a run: a pending retry timer fires and calls
  \<open>handleUserMessage(message)\<close> of the render that scheduled it.
\<close>

fun run_chat_retries :: "gpt_render \<Rightarrow> string \<Rightarrow> chat_outcome list \<Rightarrow> gpt_state \<Rightarrow> gpt_state" where
  "run_chat_retries env message [] st = st"
| "run_chat_retries env message (outcome # rest) st =
     (if gpt_timers st = 0 then st
      else run_chat_retries env message rest
             (handleUserMessage env message outcome (st\<lparr>gpt_timers := gpt_timers st - 1\<rparr>)))"

text \<open>
  The command effect and the microphone toggle of the chat page. The effect does not
  wait for \<open>handleUserMessage\<close>: \<open>resetTranscript()\<close> runs as soon as the request is
  sent, before its answer is handled.
\<close>

definition gptCommandEffect :: "gpt_render \<Rightarrow> chat_outcome \<Rightarrow> gpt_state \<Rightarrow> gpt_state" where
  "gptCommandEffect env outcome st =
     (let transcript = g_transcript env in
      if transcript = [] \<or> \<not> g_isListening env then st
      else
        let command = toLowerCase transcript in
        if includes_str command ''go back'' \<or> includes_str command ''go home'' then
          gpt_emit (RouterPush ''/'') (gpt_emit (Speak ''Going back to home page'') st)
        else if includes_str command ''go to scan'' \<or> includes_str command ''video analyzer'' then
          gpt_emit (RouterPush ''/scan'') (gpt_emit (Speak ''Opening video analyzer'') st)
        else if includes_str command ''emergency'' then
          gpt_emit (Toast ''Emergency Contact'' ''Contacting your emergency contact...'' True)
            (gpt_emit (Speak ''Activating emergency contact'') st)
        else
          handleUserMessage_settle env outcome
            (gpt_emit ResetTranscript (handleUserMessage_start env transcript st)))"

definition gptToggleListening :: "gpt_render \<Rightarrow> bool \<Rightarrow> gpt_state \<Rightarrow> gpt_state" where
  "gptToggleListening env vibrate st =
     (if g_isSpeaking env then gpt_emit StopSpeaking st
      else if g_isListening env then
        gpt_emit (Toast ''Voice recognition stopped'' ''Click the microphone again to start listening'' False)
          ((gpt_emit StopListening st)\<lparr>gpt_isListening := False\<rparr>)
      else
        let st1 = (gpt_emit StartListening st)\<lparr>gpt_isListening := True\<rparr>;
            st2 = gpt_emit (Speak ''Listening. What would you like to know?'') st1;
            st3 = gpt_emit (Toast ''Listening...'' ''Speak your question now'' False) st2
        in if vibrate then gpt_emit (Vibrate 200) st3 else st3)"

definition initial_gpt :: gpt_state where
  "initial_gpt =
     \<lparr> gpt_isListening = False, gpt_isProcessing = False,
       messages = [\<lparr>role = Assistant, content = ''Hello! How can I help you today?''\<rparr>],
       gpt_retryCount = 0, gpt_timers = 0, gpt_effects = [] \<rparr>"

section \<open>Observations on the effect log\<close>

text \<open>The titles of the toasts shown, in order, and the number of requests sent.\<close>

fun toast_titles :: "effect list \<Rightarrow> string list" where
  "toast_titles [] = []"
| "toast_titles (Toast title description destructive # es) = title # toast_titles es"
| "toast_titles (e # es) = toast_titles es"

fun is_request :: "effect \<Rightarrow> bool" where
  "is_request (FetchAnalyze img prompt) = True"
| "is_request (FetchChat body) = True"
| "is_request e = False"

definition requests_sent :: "effect list \<Rightarrow> nat" where
  "requests_sent es = length (filter is_request es)"

section \<open>Scenarios\<close>

text \<open>A request that did not succeed: a non-success response or a rejection.\<close>

definition analyze_failed :: "analyze_outcome \<Rightarrow> bool" where
  "analyze_failed outcome = (case outcome of Analyze_ok analysis \<Rightarrow> False | _ \<Rightarrow> True)"

definition chat_failed :: "chat_outcome \<Rightarrow> bool" where
  "chat_failed outcome = (case outcome of Chat_ok aiResponse \<Rightarrow> False | _ \<Rightarrow> True)"

text \<open>
  A browser with a one-track camera, a working canvas and no vibration, and the scan
  page listening with the camera running.
\<close>

definition plain_world :: scan_world where
  "plain_world =
     \<lparr> mediaDevices = True, userMedia = Some 1, canVibrate = False, context2d = True,
       frameDataURL = ''data:image/jpeg;base64,AAAA'', randomIndex = 0 \<rparr>"

definition listening_camera_on :: scan_state where
  "listening_camera_on = camera_on\<lparr>isListening := True\<rparr>"

text \<open>
  The scan page with the camera running and retry counter 0 analyses a frame, and
  \<open>/api/analyze-image\<close> answers four times in a row with a non-success response:
  the first run of \<open>processImage\<close>, then the event loop with the next three answers.
\<close>

definition four_failures :: scan_state where
  "four_failures =
     (let env = render True False [] camera_on;
          img = ''data:image/jpeg;base64,AAAA'';
          failure = Analyze_not_ok None None
      in run_retries env 0 img None [failure, failure, failure]
           (processImage env 0 img None failure camera_on))"

text \<open>The same on the fresh chat page, for the message \<open>hello\<close> and \<open>/api/chat\<close>.\<close>

definition four_chat_failures :: gpt_state where
  "four_chat_failures =
     (let env = gpt_render_of True False [] initial_gpt
      in run_chat_retries env ''hello'' [Chat_not_ok, Chat_not_ok, Chat_not_ok]
           (handleUserMessage env ''hello'' Chat_not_ok initial_gpt))"

text \<open>
  \<open>processImage\<close> called with a payload that has no comma, from a render with retry
  counter 0 and from one with retry counter 3.
\<close>

definition no_comma_run :: scan_state where
  "no_comma_run =
     processImage (render True False [] camera_on) 0 ''garbage'' None (Analyze_ok ''a chair'') camera_on"

definition no_comma_run_at_max :: scan_state where
  "no_comma_run_at_max =
     processImage (render True False [] (camera_on\<lparr>retryCount := 3\<rparr>)) 0 ''garbage'' None
       (Analyze_ok ''a chair'') (camera_on\<lparr>retryCount := 3\<rparr>)"

text \<open>
  A capture as the voice command \<open>take picture\<close> starts it (\<open>captureImage()\<close>, no
  question), from the render of the state \<open>st\<close>: its request gets a non-success
  response, and the retry it schedules is answered with a success response.
\<close>

definition failed_capture :: "scan_state \<Rightarrow> scan_state" where
  "failed_capture st =
     (let env = render True False ''take picture'' st
      in run_retries env (randomIndex plain_world) (frameDataURL plain_world) None
           [Analyze_ok ''a chair'']
           (captureImage env plain_world None (Analyze_not_ok None None) st))"

text \<open>
  Three such captures, one after the other, on the scan page that is listening with the
  camera running: the retry counter of the page goes from 0 to 1, 2 and 3, and no
  request or timer is pending at the end.
\<close>

definition reached_three :: scan_state where
  "reached_three = failed_capture (failed_capture (failed_capture listening_camera_on))"

text \<open>
  A fourth capture, made from the render of that state: the page while its request is
  in flight, and when the request has settled with a success response.
\<close>

definition stale_started :: scan_state where
  "stale_started =
     fst (captureImage_start (render True False ''take picture'' reached_three) plain_world None
            reached_three)"

definition stale_settled :: scan_state where
  "stale_settled =
     processImage_settle (render True False ''take picture'' reached_three)
       (randomIndex plain_world) None (Analyze_ok ''a chair'') stale_started"

text \<open>The command effect for the transcript \<open>take a picture please\<close>, camera running.\<close>

definition take_a_picture_run :: scan_state where
  "take_a_picture_run =
     commandEffect (render True False ''take a picture please'' listening_camera_on) plain_world
       (Analyze_ok ''a chair'') listening_camera_on"

section \<open>Properties of the offline fallback\<close>

lemma length_MOCK_RESPONSES: "length MOCK_RESPONSES = 5"
  by (simp add: MOCK_RESPONSES_def)

lemma includes_str_sublist: "includes_str s sub = sublist sub s"
  by (induction s) (auto simp: sublist_Cons_right)

text \<open>
  Claim C5. For each of the five canned sentences (index \<open>i\<close> below 5) and every
  non-empty question, \<open>getMockResponse\<close> returns that sentence followed by the fixed
  disclaimer, and the part after the sentence contains the question text verbatim.
\<close>

theorem getMockResponse_question:
  assumes "i < 5" and "q \<noteq> []"
  shows "getMockResponse i (Some q) =
           MOCK_RESPONSES ! i @ '' Regarding your question: '' @ [CHR 0x22] @ q @ [CHR 0x22]
             @ '', I'm currently unable to provide a specific answer as I'm operating in offline mode.''
         \<and> MOCK_RESPONSES ! i \<in> set MOCK_RESPONSES
         \<and> includes_str (drop (length (MOCK_RESPONSES ! i)) (getMockResponse i (Some q))) q"
proof -
  have mem: "MOCK_RESPONSES ! i \<in> set MOCK_RESPONSES"
    using assms(1) by (simp add: length_MOCK_RESPONSES)
  have eq: "getMockResponse i (Some q) =
           MOCK_RESPONSES ! i @ '' Regarding your question: '' @ [CHR 0x22] @ q @ [CHR 0x22]
             @ '', I'm currently unable to provide a specific answer as I'm operating in offline mode.''"
    using assms(2) by (simp add: getMockResponse_def)
  have "sublist q ('' Regarding your question: '' @ [CHR 0x22] @ q @ [CHR 0x22]
             @ '', I'm currently unable to provide a specific answer as I'm operating in offline mode.'')"
    unfolding sublist_def by (metis append.assoc)
  then have "includes_str (drop (length (MOCK_RESPONSES ! i)) (getMockResponse i (Some q))) q"
    by (simp only: eq includes_str_sublist append_eq_conv_conj drop_append length_append)
       simp
  with mem eq show ?thesis by blast
qed

theorem getMockResponse_question_witness:
  "getMockResponse 2 (Some ''is there a door?'') =
     ''I can see what might be furniture or objects in the frame. Please be careful when moving forward. Regarding your question: ''
       @ [CHR 0x22] @ ''is there a door?'' @ [CHR 0x22]
       @ '', I'm currently unable to provide a specific answer as I'm operating in offline mode.''"
  using getMockResponse_question [of 2 "''is there a door?''"]
  by (simp add: MOCK_RESPONSES_def)

text \<open>
  Claim C9. With no question supplied, \<open>getMockResponse\<close> returns the canned sentence
  at the drawn index unchanged, which is one of the five sentences of the table.
\<close>

theorem getMockResponse_no_question:
  assumes "i < 5"
  shows "getMockResponse i None = MOCK_RESPONSES ! i
         \<and> getMockResponse i None \<in> set MOCK_RESPONSES
         \<and> length MOCK_RESPONSES = 5"
  using assms by (simp add: getMockResponse_def length_MOCK_RESPONSES)

theorem getMockResponse_no_question_witness:
  "getMockResponse 4 None = ''I can see what looks like a pathway. It appears to be clear of obstacles.''"
  using getMockResponse_no_question [of 4]
  by (simp add: MOCK_RESPONSES_def)

section \<open>Camera control: properties\<close>

text \<open>
  Claim C8. \<open>stopCamera\<close> with no stream attached to the video element returns the
  state as it is: nothing is logged (no toast, no track stopped) and no flag changes.
  A second \<open>stopCamera\<close> right after a first one therefore changes nothing more.
\<close>

theorem stopCamera_inactive_noop:
  "(srcObject st = None \<longrightarrow> stopCamera st = st)
   \<and> stopCamera (stopCamera st) = stopCamera st"
  by (simp add: stopCamera_def emit_def Let_def)

theorem stopCamera_inactive_noop_witness:
  "srcObject initial_scan = None \<and> stopCamera initial_scan = initial_scan
   \<and> stopCamera camera_on \<noteq> camera_on
   \<and> stopCamera (stopCamera camera_on) = stopCamera camera_on"
  using stopCamera_inactive_noop [of initial_scan] stopCamera_inactive_noop [of camera_on]
  by (simp add: initial_scan_def camera_on_def stopCamera_def emit_def)

text \<open>
  Claim C6. \<open>captureImage\<close> from a render in which the camera is not active speaks and
  shows the "camera not active" error and returns: the log gains exactly these two
  entries (no frame drawn, none encoded, no request), and the retry counter keeps its
  value since \<open>setRetryCount(0)\<close> is not reached.
\<close>

theorem captureImage_camera_inactive:
  assumes "\<not> r_cameraActive env"
  shows "captureImage env w question outcome st =
           st\<lparr>effects := effects st @
                 [Speak ''Camera is not active. Please start the camera first.'',
                  Toast ''Camera not active'' ''Please start the camera first'' True]\<rparr>
         \<and> retryCount (captureImage env w question outcome st) = retryCount st"
  using assms by (simp add: captureImage_def captureImage_start_def emit_def)

theorem captureImage_camera_inactive_witness:
  "\<not> r_cameraActive (render True False [] (initial_scan\<lparr>retryCount := 2\<rparr>))
   \<and> retryCount (captureImage (render True False [] (initial_scan\<lparr>retryCount := 2\<rparr>)) plain_world None
         (Analyze_ok ''a chair'') (initial_scan\<lparr>retryCount := 2\<rparr>)) = 2
   \<and> effects (captureImage (render True False [] (initial_scan\<lparr>retryCount := 2\<rparr>)) plain_world None
         (Analyze_ok ''a chair'') (initial_scan\<lparr>retryCount := 2\<rparr>)) =
       [Speak ''Camera is not active. Please start the camera first.'',
        Toast ''Camera not active'' ''Please start the camera first'' True]"
  using captureImage_camera_inactive
          [of "render True False [] (initial_scan\<lparr>retryCount := 2\<rparr>)" plain_world None
              "Analyze_ok ''a chair''" "initial_scan\<lparr>retryCount := 2\<rparr>"]
  by (simp add: render_def initial_scan_def)

section \<open>The microphone toggle: properties\<close>

text \<open>
  Claim C10. On both pages, \<open>toggleListening\<close> from a render in which speech synthesis
  is speaking only calls \<open>stopSpeaking\<close>: the log gains that one entry (no toast, no
  call on the recognition session) and every state cell keeps its value.
\<close>

theorem toggleListening_while_speaking:
  "(r_isSpeaking env \<longrightarrow>
      toggleListening env w st = st\<lparr>effects := effects st @ [StopSpeaking]\<rparr>)
   \<and> (g_isSpeaking genv \<longrightarrow>
      gptToggleListening genv vibrate gst = gst\<lparr>gpt_effects := gpt_effects gst @ [StopSpeaking]\<rparr>)"
  by (simp add: toggleListening_def gptToggleListening_def emit_def gpt_emit_def)

theorem toggleListening_while_speaking_witness:
  "r_isSpeaking (render True True [] listening_camera_on)
   \<and> toggleListening (render True True [] listening_camera_on) plain_world listening_camera_on
       = listening_camera_on\<lparr>effects := [StopSpeaking]\<rparr>
   \<and> g_isSpeaking (gpt_render_of True True [] initial_gpt)
   \<and> gptToggleListening (gpt_render_of True True [] initial_gpt) True initial_gpt
       = initial_gpt\<lparr>gpt_effects := [StopSpeaking]\<rparr>"
  using toggleListening_while_speaking
          [of "render True True [] listening_camera_on" plain_world listening_camera_on
              "gpt_render_of True True [] initial_gpt" True initial_gpt]
  by (simp add: render_def gpt_render_of_def listening_camera_on_def camera_on_def
        initial_scan_def initial_gpt_def)

section \<open>The retry policy: properties\<close>

lemma string_of_nat_digit: "n < 10 \<Longrightarrow> string_of_nat n = [''0123456789'' ! n]"
  by (simp add: string_of_nat.simps)

text \<open>
  One failed run of \<open>processImage\<close> from a render whose retry counter is below the
  maximum schedules a retry and stores no result.
\<close>

lemma processImage_failed_step:
  assumes "r_retryCount env < maxRetries" and "analyze_failed outcome"
  shows "analysisResult (processImage env rnd img q outcome st) = analysisResult st"
    and "timers (processImage env rnd img q outcome st) = timers st + 1"
    and "retryCount (processImage env rnd img q outcome st) = r_retryCount env + 1"
    and "isProcessing (processImage env rnd img q outcome st)"
  using assms
  by (auto simp: processImage_def processImage_start_def processImage_settle_def
        processImage_request_def processImage_response_def processImage_catch_def
        processImage_finally_def schedule_def emit_def Let_def analyze_failed_def
        split: analyze_outcome.splits)

text \<open>
  However many requests fail, the retries of a run that started from a render with
  retry counter below the maximum never reach the fallback: the stored result stays as it
  was and a retry stays pending.
\<close>

lemma run_retries_never_falls_back:
  assumes "r_retryCount env < maxRetries"
    and "\<forall>outcome \<in> set outcomes. analyze_failed outcome"
  shows "analysisResult (run_retries env rnd img q outcomes st) = analysisResult st
         \<and> timers (run_retries env rnd img q outcomes st) = timers st"
  using assms
proof (induction outcomes arbitrary: st)
  case Nil
  then show ?case by simp
next
  case (Cons outcome rest)
  show ?case
  proof (cases "timers st = 0")
    case True
    then show ?thesis by simp
  next
    case False
    let ?st' = "processImage env rnd img q outcome (st\<lparr>timers := timers st - 1\<rparr>)"
    have f: "analyze_failed outcome" using Cons.prems by simp
    have a: "analysisResult ?st' = analysisResult st"
      using processImage_failed_step(1) [OF Cons.prems(1) f] by simp
    have t: "timers ?st' = timers st"
      using processImage_failed_step(2) [OF Cons.prems(1) f] False by simp
    have "analysisResult (run_retries env rnd img q rest ?st') = analysisResult ?st'
          \<and> timers (run_retries env rnd img q rest ?st') = timers ?st'"
      using Cons.IH Cons.prems by simp
    with a t False show ?thesis by simp
  qed
qed

text \<open>
  Claim C1, evaluated on the code. After four non-success answers in a row the page has
  sent four requests and shown four toasts, each titled \<open>Retry 1/3\<close> (not 1, 2, 3);
  a fifth attempt is scheduled, the retry counter is 1, and no result, synthetic or
  other, has been stored. Every run reads the retry counter of the render that built
  it, which stays 0.
\<close>

theorem processImage_four_failures:
  "toast_titles (effects four_failures) = [''Retry 1/3'', ''Retry 1/3'', ''Retry 1/3'', ''Retry 1/3'']
   \<and> requests_sent (effects four_failures) = 4
   \<and> timers four_failures = 1
   \<and> retryCount four_failures = 1
   \<and> analysisResult four_failures = []
   \<and> isProcessing four_failures"
  by (simp add: four_failures_def render_def camera_on_def initial_scan_def processImage_def processImage_start_def processImage_settle_def
        processImage_request_def processImage_response_def processImage_catch_def processImage_finally_def schedule_def
        emit_def Let_def second_piece_def maxRetries_def failure_message_def
        string_of_nat_digit requests_sent_def default_prompt_def)

text \<open>
  Claim C2 as stated fails. A payload without a comma, from a render with retry counter
  0, enters the retry path (toast \<open>Retry 1/3\<close>, a retry scheduled); from a render with
  retry counter 3 it stores a synthetic fallback result. Neither sends a request.
\<close>

theorem processImage_invalid_image_counterexample:
  "second_piece ''garbage'' = None
   \<and> toast_titles (effects no_comma_run) = [''Retry 1/3'']
   \<and> timers no_comma_run = 1
   \<and> requests_sent (effects no_comma_run) = 0
   \<and> analysisResult no_comma_run_at_max = MOCK_RESPONSES ! 0
   \<and> toast_titles (effects no_comma_run_at_max) = [''Using offline mode'']"
  by (simp add: no_comma_run_def no_comma_run_at_max_def render_def camera_on_def
        initial_scan_def processImage_def processImage_start_def processImage_settle_def
        processImage_request_def processImage_response_def processImage_catch_def
        processImage_finally_def schedule_def emit_def Let_def second_piece_def maxRetries_def
        string_of_nat_digit requests_sent_def getMockResponse_def)

text \<open>
  Claim C2, amended. A call of \<open>processImage\<close> whose payload has no base64 data after
  the comma split sends no request in that run; the error \<open>Invalid image data\<close> is
  thrown inside the \<open>try\<close> block and handled like a failed request. If the retry
  counter of the render is below the maximum, the run takes the retry path (counter set,
  retry toast, timer scheduled); otherwise it stores the synthetic fallback result, shows
  the offline toast and clears the processing flag.
\<close>

theorem processImage_invalid_image:
  assumes "\<not> truthy (second_piece imageBase64)"
  shows "processImage env rnd imageBase64 question outcome st =
     (if r_retryCount env < maxRetries then
        st\<lparr>isProcessing := True, retryCount := r_retryCount env + 1, timers := timers st + 1,
           effects := effects st @
             [ConsoleError ''Invalid image data'',
              Toast (''Retry '' @ string_of_nat (r_retryCount env + 1) @ ''/''
                       @ string_of_nat maxRetries) ''Retrying image analysis...'' False,
              SetTimeout 1000]\<rparr>
      else
        st\<lparr>isProcessing := False, userQuestion := [], retryCount := 0,
           analysisResult := getMockResponse rnd question,
           effects := effects st @
             [ConsoleError ''Invalid image data'',
              Toast ''Using offline mode''
                ''Could not connect to AI service. Using basic analysis.'' False]
             @ (if r_voiceFeedback env then [Speak (getMockResponse rnd question)] else [])\<rparr>)"
  using assms
  by (simp add: processImage_def processImage_start_def processImage_settle_def
        processImage_request_def processImage_response_def processImage_catch_def
        processImage_finally_def schedule_def emit_def Let_def)

theorem processImage_invalid_image_witness:
  "\<not> truthy (second_piece ''data:image/jpeg;base64,'')
   \<and> effects (processImage (render False False [] camera_on) 0 ''data:image/jpeg;base64,'' None
        (Analyze_ok ''a chair'') camera_on) =
       [ConsoleError ''Invalid image data'',
        Toast ''Retry 1/3'' ''Retrying image analysis...'' False,
        SetTimeout 1000]"
  using processImage_invalid_image
          [of "''data:image/jpeg;base64,''" "render False False [] camera_on" 0 None
              "Analyze_ok ''a chair''" camera_on]
  by (simp add: second_piece_def render_def camera_on_def initial_scan_def maxRetries_def
        string_of_nat_digit)

text \<open>
  What the settling of a request does to the processing flag: the \<open>finally\<close> block
  sets it to false if the retry counter the run reads, the \<open>retryCount\<close> constant of
  its render, has reached the maximum, and otherwise leaves it as it is at that moment.
  The retry counter of the page at that moment plays no part.
\<close>

lemma processImage_settle_flag:
  "isProcessing (processImage_settle env rnd q outcome st) =
     (r_retryCount env < maxRetries \<and> isProcessing st)"
  by (auto simp: processImage_settle_def processImage_response_def processImage_catch_def
        processImage_finally_def schedule_def emit_def Let_def
        split: analyze_outcome.splits)

lemma handleUserMessage_settle_flag:
  "gpt_isProcessing (handleUserMessage_settle env outcome st) =
     (g_retryCount env < maxRetries \<and> gpt_isProcessing st)"
  by (auto simp: handleUserMessage_settle_def handleUserMessage_response_def
        handleUserMessage_catch_def handleUserMessage_finally_def gpt_schedule_def
        gpt_emit_def Let_def
        split: chat_outcome.splits)

text \<open>
  A capture with the camera active and a well-formed frame resets the retry counter of
  the page and sends its request.
\<close>

lemma captureImage_start_sends:
  assumes "videoRef st" and "canvasRef st" and "r_cameraActive env" and "context2d w"
    and "truthy (second_piece (frameDataURL w))"
  shows "captureImage_start env w question st =
           (st\<lparr>isProcessing := True, retryCount := 0,
               effects := effects st @
                 [DrawImage, ToDataURL,
                  FetchAnalyze (the (second_piece (frameDataURL w)))
                    (if truthy question then the question else default_prompt)]\<rparr>, True)"
  using assms
  by (simp add: captureImage_start_def processImage_start_def processImage_request_def
        emit_def Let_def)

lemma plain_world_facts:
  "context2d plain_world" "truthy (second_piece (frameDataURL plain_world))"
  "randomIndex plain_world = 0"
  by (simp_all add: plain_world_def second_piece_def)

lemma render_fields:
  "r_cameraActive (render v s t st) = cameraActive st"
  "r_retryCount (render v s t st) = retryCount st"
  "r_voiceFeedback (render v s t st) = v"
  by (simp_all add: render_def)

text \<open>
  A failed capture whose retry succeeds, from a render with retry counter below the
  maximum, leaves the retry counter of the page one higher than it found it, nothing
  pending, and the processing flag true.
\<close>

lemma failed_capture_fields:
  assumes "videoRef st" and "canvasRef st" and "cameraActive st" and "retryCount st < maxRetries"
  shows "retryCount (failed_capture st) = retryCount st + 1"
    and "cameraActive (failed_capture st)"
    and "videoRef (failed_capture st)"
    and "canvasRef (failed_capture st)"
    and "timers (failed_capture st) = timers st"
    and "isProcessing (failed_capture st)"
  using assms
  by (simp_all add: failed_capture_def captureImage_def captureImage_start_sends
        plain_world_facts render_fields processImage_def processImage_start_def
        processImage_request_def processImage_settle_def processImage_response_def
        processImage_catch_def processImage_finally_def schedule_def emit_def Let_def
        failure_message_def)

lemma listening_camera_on_facts:
  "videoRef listening_camera_on" "canvasRef listening_camera_on"
  "cameraActive listening_camera_on" "retryCount listening_camera_on = 0"
  "timers listening_camera_on = 0"
  by (simp_all add: listening_camera_on_def camera_on_def initial_scan_def)

lemma reached_three_facts:
  "retryCount reached_three = 3" "cameraActive reached_three" "videoRef reached_three"
  "canvasRef reached_three" "timers reached_three = 0" "isProcessing reached_three"
  unfolding reached_three_def
  by (simp_all add: failed_capture_fields listening_camera_on_facts maxRetries_def)

text \<open>
  Claim C7, evaluated on the code. After three captures whose first request failed, the
  retry counter of the page is 3 and nothing is pending. A fourth capture from that
  render resets the counter to 0 before it sends its request, so while the request is in
  flight the counter is 0, below the maximum, and the processing flag is true. When the
  request settles with a success response the flag is set back to false all the same,
  the counter still being 0: the \<open>finally\<close> block reads the 3 of its render. The
  settled state is the run of \<open>captureImage\<close> on the state the three captures left.
\<close>

theorem stale_counter_clears_flag:
  "retryCount reached_three = 3
   \<and> timers reached_three = 0
   \<and> retryCount stale_started = 0
   \<and> isProcessing stale_started
   \<and> \<not> isProcessing stale_settled
   \<and> retryCount stale_settled = 0
   \<and> analysisResult stale_settled = ''a chair''
   \<and> stale_settled =
       captureImage (render True False ''take picture'' reached_three) plain_world None
         (Analyze_ok ''a chair'') reached_three"
proof -
  let ?env = "render True False ''take picture'' reached_three"
  have start: "captureImage_start ?env plain_world None reached_three =
                 (reached_three\<lparr>isProcessing := True, retryCount := 0,
                    effects := effects reached_three @
                      [DrawImage, ToDataURL,
                       FetchAnalyze (the (second_piece (frameDataURL plain_world)))
                         default_prompt]\<rparr>, True)"
    using captureImage_start_sends [of reached_three ?env plain_world None]
    by (simp add: reached_three_facts plain_world_facts render_fields)
  have started: "retryCount stale_started = 0" "isProcessing stale_started"
    by (simp_all add: stale_started_def start)
  have flag: "\<not> isProcessing stale_settled"
    by (simp add: stale_settled_def processImage_settle_flag render_fields
          reached_three_facts maxRetries_def)
  have settled: "retryCount stale_settled = 0" "analysisResult stale_settled = ''a chair''"
    by (simp_all add: stale_settled_def processImage_settle_def processImage_response_def
          processImage_finally_def emit_def Let_def render_fields reached_three_facts
          maxRetries_def)
  have run: "stale_settled =
               captureImage ?env plain_world None (Analyze_ok ''a chair'') reached_three"
    by (simp add: captureImage_def start stale_settled_def stale_started_def)
  from reached_three_facts(1,5) started flag settled run show ?thesis
    by blast
qed

section \<open>The chat request: properties\<close>

lemma handleUserMessage_failed_step:
  assumes "g_retryCount env < maxRetries" and "chat_failed outcome"
  shows "messages (handleUserMessage env message outcome st) =
           messages st @ [\<lparr>role = User, content = message\<rparr>]"
    and "gpt_timers (handleUserMessage env message outcome st) = gpt_timers st + 1"
  using assms
  by (auto simp: handleUserMessage_def handleUserMessage_start_def
        handleUserMessage_settle_def handleUserMessage_response_def handleUserMessage_catch_def
        handleUserMessage_finally_def gpt_schedule_def gpt_emit_def Let_def chat_failed_def
        split: chat_outcome.splits)

text \<open>
  However many requests fail, the retries of a message sent from a render with retry
  counter below the maximum only append copies of the user's message: no apology is
  added and a retry stays pending.
\<close>

lemma run_chat_retries_never_apologises:
  assumes "g_retryCount env < maxRetries"
    and "\<forall>outcome \<in> set outcomes. chat_failed outcome"
    and "0 < gpt_timers st"
  shows "messages (run_chat_retries env message outcomes st) =
           messages st @ replicate (length outcomes) \<lparr>role = User, content = message\<rparr>
         \<and> gpt_timers (run_chat_retries env message outcomes st) = gpt_timers st"
  using assms
proof (induction outcomes arbitrary: st)
  case Nil
  then show ?case by simp
next
  case (Cons outcome rest)
  let ?st' = "handleUserMessage env message outcome (st\<lparr>gpt_timers := gpt_timers st - 1\<rparr>)"
  have f: "chat_failed outcome" using Cons.prems by simp
  have m: "messages ?st' = messages st @ [\<lparr>role = User, content = message\<rparr>]"
    using handleUserMessage_failed_step(1) [OF Cons.prems(1) f] by simp
  have t: "gpt_timers ?st' = gpt_timers st"
    using handleUserMessage_failed_step(2) [OF Cons.prems(1) f] Cons.prems(3) by simp
  have "messages (run_chat_retries env message rest ?st') =
          messages ?st' @ replicate (length rest) \<lparr>role = User, content = message\<rparr>
        \<and> gpt_timers (run_chat_retries env message rest ?st') = gpt_timers ?st'"
    using Cons.IH [of ?st'] Cons.prems t by simp
  with m t Cons.prems(3) show ?case
    by (simp add: replicate_app_Cons_same)
qed

text \<open>
  Claim C4, evaluated on the code. After four non-success answers in a row the message
  log holds the greeting and four copies of the user's message and no apology; four
  toasts titled \<open>Retry 1/3\<close> were shown, four requests sent, and a fifth attempt is
  scheduled. No synthetic answer appears in the log.
\<close>

theorem handleUserMessage_four_failures:
  "messages four_chat_failures =
     [\<lparr>role = Assistant, content = ''Hello! How can I help you today?''\<rparr>,
      \<lparr>role = User, content = ''hello''\<rparr>, \<lparr>role = User, content = ''hello''\<rparr>,
      \<lparr>role = User, content = ''hello''\<rparr>, \<lparr>role = User, content = ''hello''\<rparr>]
   \<and> apology \<notin> set (messages four_chat_failures)
   \<and> toast_titles (gpt_effects four_chat_failures) =
       [''Retry 1/3'', ''Retry 1/3'', ''Retry 1/3'', ''Retry 1/3'']
   \<and> requests_sent (gpt_effects four_chat_failures) = 4
   \<and> gpt_timers four_chat_failures = 1
   \<and> gpt_isProcessing four_chat_failures"
  by (simp add: four_chat_failures_def gpt_render_of_def initial_gpt_def handleUserMessage_def handleUserMessage_start_def
        handleUserMessage_settle_def handleUserMessage_response_def handleUserMessage_catch_def handleUserMessage_finally_def
        gpt_schedule_def gpt_emit_def Let_def maxRetries_def string_of_nat_digit
        requests_sent_def apology_def)

section \<open>Voice commands: properties\<close>

text \<open>
  Claim C3 as stated fails. For the transcript \<open>take a picture please\<close>, listening and
  with the camera running, the confirmation \<open>Taking picture for analysis\<close> is not
  spoken; the transcript becomes the user question and the prompt of the request.
\<close>

theorem commandEffect_take_a_picture_counterexample:
  "Speak ''Taking picture for analysis'' \<notin> set (effects take_a_picture_run)
   \<and> userQuestion take_a_picture_run = ''take a picture please''
   \<and> effects take_a_picture_run =
       [DrawImage, ToDataURL, FetchAnalyze ''AAAA'' ''take a picture please'',
        Speak ''a chair'', Toast ''Analysis complete'' ''Image has been analyzed'' False]"
  by (simp add: take_a_picture_run_def commandEffect_def captureImage_def captureImage_start_def processImage_def processImage_start_def processImage_settle_def
        processImage_request_def processImage_response_def processImage_finally_def render_def listening_camera_on_def
        camera_on_def initial_scan_def plain_world_def toLowerCase_def lower_char_def
        emit_def Let_def second_piece_def maxRetries_def)

text \<open>
  Claim C3, amended. While listening with the camera active, the transcript
  \<open>take a picture please\<close> contains none of the keywords (\<open>take picture\<close> does not
  occur in it as a contiguous run), so it takes the free-form-question path: the user
  question is set to the transcript and \<open>captureImage\<close> is called with the transcript
  as its question. The transcript \<open>take picture please\<close> takes the plain
  capture-and-analyze path: the confirmation \<open>Taking picture for analysis\<close> is spoken
  and \<open>captureImage\<close> is called with no question.
\<close>

theorem commandEffect_take_a_picture:
  assumes "r_isListening env" and "r_cameraActive env"
  shows "(r_transcript env = ''take a picture please'' \<longrightarrow>
            commandEffect env w outcome st =
              captureImage env w (Some ''take a picture please'') outcome
                (st\<lparr>userQuestion := ''take a picture please''\<rparr>))
         \<and> (r_transcript env = ''take picture please'' \<longrightarrow>
            commandEffect env w outcome st =
              captureImage env w None outcome (emit (Speak ''Taking picture for analysis'') st))"
  using assms
  by (simp add: commandEffect_def toLowerCase_def lower_char_def Let_def)

theorem commandEffect_take_a_picture_witness:
  "r_isListening (render False False ''take picture please'' listening_camera_on)
   \<and> r_cameraActive (render False False ''take picture please'' listening_camera_on)
   \<and> effects (commandEffect (render False False ''take picture please'' listening_camera_on)
        plain_world (Analyze_ok ''a chair'') listening_camera_on) =
       [Speak ''Taking picture for analysis'', DrawImage, ToDataURL,
        FetchAnalyze ''AAAA'' default_prompt,
        Toast ''Analysis complete'' ''Image has been analyzed'' False]
   \<and> r_isListening (render False False ''take a picture please'' listening_camera_on)
   \<and> r_cameraActive (render False False ''take a picture please'' listening_camera_on)
   \<and> effects (commandEffect (render False False ''take a picture please'' listening_camera_on)
        plain_world (Analyze_ok ''a chair'') listening_camera_on) =
       [DrawImage, ToDataURL, FetchAnalyze ''AAAA'' ''take a picture please'',
        Toast ''Analysis complete'' ''Image has been analyzed'' False]"
  using commandEffect_take_a_picture
          [of "render False False ''take picture please'' listening_camera_on" plain_world
              "Analyze_ok ''a chair''" listening_camera_on]
        commandEffect_take_a_picture
          [of "render False False ''take a picture please'' listening_camera_on" plain_world
              "Analyze_ok ''a chair''" listening_camera_on]
  by (simp add: captureImage_def captureImage_start_def processImage_def processImage_start_def processImage_settle_def
        processImage_request_def processImage_response_def processImage_finally_def
        render_def listening_camera_on_def camera_on_def initial_scan_def plain_world_def
        emit_def Let_def second_piece_def maxRetries_def)

end
